theory Spec2Isabelle
  imports Main
begin

section \<open>Python values, exceptions and the library environment\<close>

text \<open>
  The repository is one Python 2 module, \<^verbatim>\<open>config_reader.py\<close>. Its values are the
  trees a YAML, JSON or INI reader produces: scalars, lists and dictionaries with string keys.
  A Python \<^verbatim>\<open>float\<close> is an IEEE double; the module never computes with one, it only
  converts, so the type is kept abstract and the conversions are taken from the environment.
\<close>

typedecl pyfloat

datatype pyval =
    VNone
  | VBool bool
  | VInt int
  | VFloat pyfloat
  | VStr string
  | VList "pyval list"
  | VDict "string \<Rightarrow> pyval option"

type_synonym pydict = "string \<Rightarrow> pyval option"

text \<open>
  Exceptions are values. \<open>ValueError\<close> carries the message the module gives it;
  \<open>InvalidLiteral\<close> is the \<^verbatim>\<open>ValueError\<close> the builtins \<^verbatim>\<open>int()\<close> and
  \<^verbatim>\<open>float()\<close> raise on a string that is no number, \<open>NotFinite\<close> the error of
  \<^verbatim>\<open>int()\<close> on a NaN or an infinity, \<open>DictUpdateError\<close> the \<^verbatim>\<open>ValueError\<close> of
  \<^verbatim>\<open>dict()\<close> on a sequence element that is no pair, \<open>LibraryError\<close> whatever a
  format library raises on malformed input. \<open>ConfigurationError\<close> keeps the two
  arguments the module passes to it.
\<close>

datatype error =
    KeyError string
  | IndexError
  | TypeError
  | ValueError string
  | InvalidLiteral string
  | NotFinite
  | OverflowError
  | DictUpdateError
  | IOError
  | ConfigurationError string string
  | LibraryError string
  | NoSuchObject

text \<open>
  What the module takes from Python and its libraries: \<^verbatim>\<open>os.path\<close>, the three format
  readers, the numeric conversions of the builtins, \<^verbatim>\<open>dict()\<close> on a list, and the order
  in which a Python 2 dictionary with the four registry keys is iterated.
\<close>

record pylib =
  abspath :: "string \<Rightarrow> string"
  path_join :: "string \<Rightarrow> string \<Rightarrow> string"
  yaml_safe_load :: "string \<Rightarrow> error + pyval"
  ini_read :: "string \<Rightarrow> error + (string \<times> (string \<times> pyval) list) list"
  json_decode :: "string \<Rightarrow> error + pyval"
  int_of_str :: "string \<Rightarrow> int option"
  int_of_float :: "pyfloat \<Rightarrow> int option"
  float_of_str :: "string \<Rightarrow> pyfloat option"
  float_of_int :: "int \<Rightarrow> pyfloat option"
  dict_of_list :: "pyval list \<Rightarrow> error + pydict"
  registry_order :: "string list"

subsection \<open>Builtins\<close>

text \<open>\<^verbatim>\<open>s.split(sep)\<close> for a one-character separator: never the empty list.\<close>

fun str_split :: "char \<Rightarrow> string \<Rightarrow> string list" where
  "str_split sep [] = [[]]"
| "str_split sep (c # cs) =
     (if c = sep then [] # str_split sep cs
      else (case str_split sep cs of
              [] \<Rightarrow> [[c]]
            | w # ws \<Rightarrow> (c # w) # ws))"

text \<open>\<^verbatim>\<open>int(v)\<close>: a \<^verbatim>\<open>TypeError\<close> on \<^verbatim>\<open>None\<close>, a list or a dictionary.\<close>

definition py_int :: "pylib \<Rightarrow> pyval \<Rightarrow> error + pyval" where
  "py_int lib v =
     (case v of
        VNone \<Rightarrow> Inl TypeError
      | VBool b \<Rightarrow> Inr (VInt (if b then 1 else 0))
      | VInt i \<Rightarrow> Inr (VInt i)
      | VFloat f \<Rightarrow> (case int_of_float lib f of None \<Rightarrow> Inl NotFinite | Some i \<Rightarrow> Inr (VInt i))
      | VStr s \<Rightarrow> (case int_of_str lib s of None \<Rightarrow> Inl (InvalidLiteral s) | Some i \<Rightarrow> Inr (VInt i))
      | VList xs \<Rightarrow> Inl TypeError
      | VDict m \<Rightarrow> Inl TypeError)"

text \<open>\<^verbatim>\<open>float(v)\<close>.\<close>

definition py_float :: "pylib \<Rightarrow> pyval \<Rightarrow> error + pyval" where
  "py_float lib v =
     (case v of
        VNone \<Rightarrow> Inl TypeError
      | VBool b \<Rightarrow> (case float_of_int lib (if b then 1 else 0) of
                     None \<Rightarrow> Inl OverflowError | Some f \<Rightarrow> Inr (VFloat f))
      | VInt i \<Rightarrow> (case float_of_int lib i of None \<Rightarrow> Inl OverflowError | Some f \<Rightarrow> Inr (VFloat f))
      | VFloat f \<Rightarrow> Inr (VFloat f)
      | VStr s \<Rightarrow> (case float_of_str lib s of None \<Rightarrow> Inl (InvalidLiteral s) | Some f \<Rightarrow> Inr (VFloat f))
      | VList xs \<Rightarrow> Inl TypeError
      | VDict m \<Rightarrow> Inl TypeError)"

text \<open>
  \<^verbatim>\<open>dict(v)\<close>, the constructor \<^verbatim>\<open>Config\<close> inherits: a copy of a dictionary; a
  \<^verbatim>\<open>TypeError\<close> on what cannot be iterated; a string is iterated by characters, none
  of which is a pair.
\<close>

definition py_dict :: "pylib \<Rightarrow> pyval \<Rightarrow> error + pydict" where
  "py_dict lib v =
     (case v of
        VNone \<Rightarrow> Inl TypeError
      | VBool b \<Rightarrow> Inl TypeError
      | VInt i \<Rightarrow> Inl TypeError
      | VFloat f \<Rightarrow> Inl TypeError
      | VStr s \<Rightarrow> (if s = [] then Inr Map.empty else Inl DictUpdateError)
      | VList xs \<Rightarrow> dict_of_list lib xs
      | VDict m \<Rightarrow> Inr m)"

section \<open>Config: the typed value mapping\<close>

text \<open>
  \<^verbatim>\<open>__getitem__\<close>: the loop \<^verbatim>\<open>for k in key.split('.'): r = dict.__getitem__(r, k)\<close>.
  \<^verbatim>\<open>dict.__getitem__\<close> raises \<^verbatim>\<open>TypeError\<close> when \<open>r\<close> is not a dictionary and
  \<^verbatim>\<open>KeyError\<close> when the key is absent.
\<close>

fun descend :: "pyval \<Rightarrow> string list \<Rightarrow> error + pyval" where
  "descend r [] = Inr r"
| "descend r (k # ks) =
     (case r of
        VDict m \<Rightarrow> (case m k of None \<Rightarrow> Inl (KeyError k) | Some v \<Rightarrow> descend v ks)
      | VNone \<Rightarrow> Inl TypeError
      | VBool b \<Rightarrow> Inl TypeError
      | VInt i \<Rightarrow> Inl TypeError
      | VFloat f \<Rightarrow> Inl TypeError
      | VStr s \<Rightarrow> Inl TypeError
      | VList xs \<Rightarrow> Inl TypeError)"

definition getitem :: "pydict \<Rightarrow> string \<Rightarrow> error + pyval" where
  "getitem self key = descend (VDict self) (str_split (CHR ''.'') key)"

text \<open>\<^verbatim>\<open>get\<close>: \<^verbatim>\<open>try: return self[k]  except KeyError: return d\<close>.\<close>

definition get :: "pydict \<Rightarrow> string \<Rightarrow> pyval \<Rightarrow> error + pyval" where
  "get self k d =
     (case getitem self k of
        Inr v \<Rightarrow> Inr v
      | Inl (KeyError x) \<Rightarrow> Inr d
      | Inl e \<Rightarrow> Inl e)"

text \<open>
  \<^verbatim>\<open>get_int\<close> and \<^verbatim>\<open>get_float\<close>: the \<^verbatim>\<open>try\<close> covers the lookup and the
  conversion, and catches \<^verbatim>\<open>TypeError\<close> only.
\<close>

definition get_int :: "pylib \<Rightarrow> pydict \<Rightarrow> string \<Rightarrow> pyval \<Rightarrow> error + pyval" where
  "get_int lib self k d =
     (case (case get self k d of Inl e \<Rightarrow> Inl e | Inr v \<Rightarrow> py_int lib v) of
        Inr i \<Rightarrow> Inr i
      | Inl TypeError \<Rightarrow>
          (if d = VStr ''raise'' then Inl (ValueError (''Not a leaf or not an integer: '' @ k))
           else Inr d)
      | Inl e \<Rightarrow> Inl e)"

definition get_float :: "pylib \<Rightarrow> pydict \<Rightarrow> string \<Rightarrow> pyval \<Rightarrow> error + pyval" where
  "get_float lib self k d =
     (case (case get self k d of Inl e \<Rightarrow> Inl e | Inr v \<Rightarrow> py_float lib v) of
        Inr f \<Rightarrow> Inr f
      | Inl TypeError \<Rightarrow>
          (if d = VStr ''raise'' then Inl (ValueError (''Not a leaf or not a float: '' @ k))
           else Inr d)
      | Inl e \<Rightarrow> Inl e)"

section \<open>The format parsers and the registry\<close>

text \<open>
  A \<^verbatim>\<open>Config\<close> is an object: the world keeps a heap of them, and a reference is a
  natural number. The world also holds the reader objects and the class attribute
  \<^verbatim>\<open>CachedConfigReader.dir_cache\<close>. A statement that raises leaves the world as it was
  when it raised, so every operation returns the world beside its result or exception.
\<close>

datatype parser_fn = YamlParser | IniParser | JsonParser

text \<open>
  A callable held in \<^verbatim>\<open>default_parser\<close>: a module-level function, or the bound method
  Python makes of a function read as a class attribute through an instance.
\<close>

datatype callable = Function parser_fn | BoundMethod parser_fn

record reader =
  config_dir :: string
  default_parser :: callable
  cache :: "string \<Rightarrow> nat option"

record world =
  dir_cache :: "string \<Rightarrow> nat option"
  readers :: "nat \<Rightarrow> reader option"
  configs :: "nat \<Rightarrow> pydict option"
  next_ref :: nat

type_synonym filesystem = "string \<Rightarrow> string option"

text \<open>What the module hands to a library reader: a string, or an open file (with its text).\<close>

datatype pyarg = StrArg string | FileArg string

text \<open>\<^verbatim>\<open>open(file, 'r')\<close>: an \<^verbatim>\<open>IOError\<close> on a missing or unreadable file.\<close>

definition open_r :: "filesystem \<Rightarrow> string \<Rightarrow> error + pyarg" where
  "open_r fs file = (case fs file of None \<Rightarrow> Inl IOError | Some txt \<Rightarrow> Inr (FileArg txt))"

text \<open>
  \<^verbatim>\<open>yaml.safe_load\<close> takes a string or a stream. \<^verbatim>\<open>json.loads\<close> takes a string
  only (\<^verbatim>\<open>json.load\<close> is the one for files) and raises \<^verbatim>\<open>TypeError\<close> on a file
  object.
\<close>

definition yaml_load :: "pylib \<Rightarrow> pyarg \<Rightarrow> error + pyval" where
  "yaml_load lib a = (case a of StrArg t \<Rightarrow> yaml_safe_load lib t | FileArg t \<Rightarrow> yaml_safe_load lib t)"

definition json_loads :: "pylib \<Rightarrow> pyarg \<Rightarrow> error + pyval" where
  "json_loads lib a = (case a of StrArg t \<Rightarrow> json_decode lib t | FileArg t \<Rightarrow> Inl TypeError)"

text \<open>\<^verbatim>\<open>Config(v)\<close>: a new object holding \<^verbatim>\<open>dict(v)\<close>.\<close>

definition Config :: "pylib \<Rightarrow> pyval \<Rightarrow> world \<Rightarrow> (error + nat) \<times> world" where
  "Config lib v s =
     (case py_dict lib v of
        Inl e \<Rightarrow> (Inl e, s)
      | Inr m \<Rightarrow> (Inr (next_ref s),
                  s\<lparr>configs := (configs s)(next_ref s \<mapsto> m), next_ref := Suc (next_ref s)\<rparr>))"

definition yaml_parser :: "pylib \<Rightarrow> filesystem \<Rightarrow> string \<Rightarrow> world \<Rightarrow> (error + nat) \<times> world" where
  "yaml_parser lib fs file s =
     (case open_r fs file of
        Inl e \<Rightarrow> (Inl e, s)
      | Inr f \<Rightarrow> (case yaml_load lib f of
                    Inl e \<Rightarrow> (Inl e, s)
                  | Inr v \<Rightarrow> Config lib v s))"

text \<open>
  \<^verbatim>\<open>ini_parser\<close>: the sections \<^verbatim>\<open>cp._read\<close> leaves in \<^verbatim>\<open>cp._sections\<close>, each
  an option table; the loop deletes \<^verbatim>\<open>'__name__'\<close> from every one.
\<close>

definition del_name :: "(string \<times> pyval) list \<Rightarrow> error + (string \<times> pyval) list" where
  "del_name opts =
     (case map_of opts ''__name__'' of
        None \<Rightarrow> Inl (KeyError ''__name__'')
      | Some v \<Rightarrow> Inr (filter (\<lambda>kv. fst kv \<noteq> ''__name__'') opts))"

fun del_names ::
  "(string \<times> (string \<times> pyval) list) list \<Rightarrow> error + (string \<times> (string \<times> pyval) list) list" where
  "del_names [] = Inr []"
| "del_names ((n, opts) # rest) =
     (case del_name opts of
        Inl e \<Rightarrow> Inl e
      | Inr opts' \<Rightarrow> (case del_names rest of
                        Inl e \<Rightarrow> Inl e
                      | Inr rest' \<Rightarrow> Inr ((n, opts') # rest')))"

definition sections_value :: "(string \<times> (string \<times> pyval) list) list \<Rightarrow> pyval" where
  "sections_value secs = VDict (map_of (map (\<lambda>sec. (fst sec, VDict (map_of (snd sec)))) secs))"

definition ini_parser :: "pylib \<Rightarrow> filesystem \<Rightarrow> string \<Rightarrow> world \<Rightarrow> (error + nat) \<times> world" where
  "ini_parser lib fs file s =
     (case open_r fs file of
        Inl e \<Rightarrow> (Inl e, s)
      | Inr f \<Rightarrow> (case (case f of StrArg t \<Rightarrow> Inl TypeError | FileArg t \<Rightarrow> ini_read lib t) of
                    Inl e \<Rightarrow> (Inl e, s)
                  | Inr secs \<Rightarrow> (case del_names secs of
                                   Inl e \<Rightarrow> (Inl e, s)
                                 | Inr secs' \<Rightarrow> Config lib (sections_value secs') s)))"

text \<open>\<^verbatim>\<open>json_parser\<close>: \<^verbatim>\<open>with open(file, 'r') as f: return Config(json.loads(f))\<close>.\<close>

definition json_parser :: "pylib \<Rightarrow> filesystem \<Rightarrow> string \<Rightarrow> world \<Rightarrow> (error + nat) \<times> world" where
  "json_parser lib fs file s =
     (case open_r fs file of
        Inl e \<Rightarrow> (Inl e, s)
      | Inr f \<Rightarrow> (case json_loads lib f of
                    Inl e \<Rightarrow> (Inl e, s)
                  | Inr v \<Rightarrow> Config lib v s))"

definition parsers_dict :: "string \<Rightarrow> parser_fn option" where
  "parsers_dict =
     [''yaml'' \<mapsto> YamlParser, ''ini'' \<mapsto> IniParser, ''conf'' \<mapsto> IniParser, ''json'' \<mapsto> JsonParser]"

definition parsers_set :: "parser_fn set" where
  "parsers_set = {YamlParser, IniParser, JsonParser}"

text \<open>
  Calling what \<^verbatim>\<open>parser\<close> holds with the one argument \<^verbatim>\<open>path\<close>. A bound method
  passes its instance first, and the parsers take one argument: \<^verbatim>\<open>TypeError\<close>.
\<close>

definition call_parser ::
  "pylib \<Rightarrow> filesystem \<Rightarrow> callable \<Rightarrow> string \<Rightarrow> world \<Rightarrow> (error + nat) \<times> world" where
  "call_parser lib fs p path s =
     (case p of
        Function YamlParser \<Rightarrow> yaml_parser lib fs path s
      | Function IniParser \<Rightarrow> ini_parser lib fs path s
      | Function JsonParser \<Rightarrow> json_parser lib fs path s
      | BoundMethod f \<Rightarrow> (Inl TypeError, s))"

section \<open>CachedConfigReader\<close>

text \<open>
  The \<^verbatim>\<open>parser\<close> argument: \<^verbatim>\<open>None\<close>, a format name, or one of the three parser
  functions.
\<close>

datatype parser_arg = PNone | PName string | PFunc parser_fn

text \<open>Python's truth value of the argument, as \<^verbatim>\<open>if parser:\<close> reads it.\<close>

definition truthy :: "parser_arg \<Rightarrow> bool" where
  "truthy p = (case p of PNone \<Rightarrow> False | PName n \<Rightarrow> n \<noteq> [] | PFunc f \<Rightarrow> True)"

text \<open>
  \<^verbatim>\<open>get_parser\<close>; the first argument is what \<^verbatim>\<open>self.default_parser\<close> evaluates to
  at the call.
\<close>

definition get_parser :: "callable \<Rightarrow> parser_arg \<Rightarrow> error + callable" where
  "get_parser self_default parser =
     (case parser of
        PNone \<Rightarrow> Inr self_default
      | PFunc f \<Rightarrow> (if f \<in> parsers_set then Inr (Function f) else Inl (KeyError ''<function>''))
      | PName n \<Rightarrow> (case parsers_dict n of
                      None \<Rightarrow> Inl (KeyError n)
                    | Some f \<Rightarrow> Inr (Function f)))"

text \<open>
  \<^verbatim>\<open>__init__\<close>: \<^verbatim>\<open>self.default_parser\<close> is not yet an instance attribute when
  \<^verbatim>\<open>get_parser\<close> reads it, so the class attribute \<^verbatim>\<open>default_parser = yaml_parser\<close>
  answers, as a bound method.
\<close>

definition class_default_parser :: parser_fn where
  "class_default_parser = YamlParser"

definition CachedConfigReader :: "string \<Rightarrow> parser_arg \<Rightarrow> error + reader" where
  "CachedConfigReader dir parser =
     (case get_parser (BoundMethod class_default_parser) parser of
        Inl e \<Rightarrow> Inl e
      | Inr p \<Rightarrow> Inr \<lparr>config_dir = dir, default_parser = p, cache = Map.empty\<rparr>)"

definition get_instance :: "pylib \<Rightarrow> string \<Rightarrow> parser_arg \<Rightarrow> world \<Rightarrow> (error + nat) \<times> world" where
  "get_instance lib dir parser s =
     (let path = abspath lib dir in
      case dir_cache s path of
        Some r \<Rightarrow> (Inr r, s)
      | None \<Rightarrow>
          (case CachedConfigReader path parser of
             Inl e \<Rightarrow> (Inl e, s)
           | Inr rd \<Rightarrow>
               (Inr (next_ref s),
                s\<lparr>dir_cache := (dir_cache s)(path \<mapsto> next_ref s),
                  readers := (readers s)(next_ref s \<mapsto> rd),
                  next_ref := Suc (next_ref s)\<rparr>)))"

subsection \<open>Choosing a parser from the file\<close>

text \<open>\<^verbatim>\<open>s.rsplit(sep, 1)\<close>: one split at the last separator, if there is one.\<close>

definition rsplit1 :: "char \<Rightarrow> string \<Rightarrow> string list" where
  "rsplit1 sep s =
     (if sep \<in> set s
      then [rev (tl (dropWhile (\<lambda>c. c \<noteq> sep) (rev s))), rev (takeWhile (\<lambda>c. c \<noteq> sep) (rev s))]
      else [s])"

definition item :: "'a list \<Rightarrow> nat \<Rightarrow> error + 'a" where
  "item xs i = (if i < length xs then Inr (xs ! i) else Inl IndexError)"

text \<open>\<^verbatim>\<open>f.readline()\<close>: up to and with the first newline.\<close>

definition readline :: "string \<Rightarrow> string" where
  "readline t =
     (if CHR 0x0A \<in> set t then takeWhile (\<lambda>c. c \<noteq> CHR 0x0A) t @ [CHR 0x0A] else t)"

definition lower_char :: "char \<Rightarrow> char" where
  "lower_char c =
     (if 65 \<le> (of_char c :: nat) \<and> (of_char c :: nat) \<le> 90 then char_of ((of_char c :: nat) + 32) else c)"

definition lower :: "string \<Rightarrow> string" where
  "lower t = map lower_char t"

definition startswith :: "string \<Rightarrow> string \<Rightarrow> bool" where
  "startswith t p = (take (length p) t = p)"

fun contains :: "string \<Rightarrow> string \<Rightarrow> bool" where
  "contains [] k = (k = [])"
| "contains (c # cs) k = (startswith (c # cs) k \<or> contains cs k)"

text \<open>\<^verbatim>\<open>parsers_dict.iteritems()\<close>, in the order the environment gives the keys.\<close>

definition iteritems :: "pylib \<Rightarrow> (string \<times> parser_fn) list" where
  "iteritems lib = List.map_filter (\<lambda>k. map_option (Pair k) (parsers_dict k)) (registry_order lib)"

definition get_parser_from_file ::
  "pylib \<Rightarrow> filesystem \<Rightarrow> callable \<Rightarrow> string \<Rightarrow> error + callable" where
  "get_parser_from_file lib fs self_default path =
     (let by_extension =
            (case item (rsplit1 (CHR ''.'') path) 1 of
               Inl e \<Rightarrow> Inl e
             | Inr x \<Rightarrow> (case parsers_dict x of
                           None \<Rightarrow> Inl (KeyError x)
                         | Some f \<Rightarrow> Inr (Function f)));
          by_first_line =
            (case open_r fs path of
               Inl e \<Rightarrow> Inl e
             | Inr f \<Rightarrow>
                 (let first_line = lower (readline (case f of StrArg t \<Rightarrow> t | FileArg t \<Rightarrow> t)) in
                  if startswith first_line ''#''
                  then (case find (\<lambda>kv. contains first_line (fst kv)) (iteritems lib) of
                          None \<Rightarrow> Inr self_default
                        | Some kv \<Rightarrow> Inr (Function (snd kv)))
                  else Inr self_default))
      in case by_extension of
           Inr p \<Rightarrow> Inr p
         | Inl (KeyError x) \<Rightarrow> by_first_line
         | Inl IndexError \<Rightarrow> by_first_line
         | Inl e \<Rightarrow> Inl e)"

subsection \<open>Reading, caching and reloading\<close>

text \<open>\<^verbatim>\<open>self.cache[config] = c\<close> and \<^verbatim>\<open>self.cache[config]\<close> on the reader at \<open>r\<close>.\<close>

definition cache_store :: "nat \<Rightarrow> string \<Rightarrow> nat \<Rightarrow> world \<Rightarrow> world" where
  "cache_store r config c s =
     (case readers s r of
        None \<Rightarrow> s
      | Some self \<Rightarrow> s\<lparr>readers := (readers s)(r \<mapsto> self\<lparr>cache := (cache self)(config \<mapsto> c)\<rparr>)\<rparr>)"

definition cache_lookup :: "nat \<Rightarrow> string \<Rightarrow> world \<Rightarrow> error + nat" where
  "cache_lookup r config s =
     (case readers s r of
        None \<Rightarrow> Inl NoSuchObject
      | Some self \<Rightarrow> (case cache self config of
                       None \<Rightarrow> Inl (KeyError config)
                     | Some c \<Rightarrow> Inr c))"

text \<open>
  The body of \<^verbatim>\<open>if config not in self.cache:\<close> in \<^verbatim>\<open>read_config\<close>. The
  \<^verbatim>\<open>try\<close> covers the choice of the parser, its call and the assignment to the cache;
  \<^verbatim>\<open>except IOError\<close> raises \<^verbatim>\<open>ConfigurationError\<close> when \<^verbatim>\<open>default == 'raise'\<close>
  and stores \<^verbatim>\<open>Config(default)\<close> otherwise.
\<close>

definition load_config ::
  "pylib \<Rightarrow> filesystem \<Rightarrow> nat \<Rightarrow> reader \<Rightarrow> string \<Rightarrow> parser_arg \<Rightarrow> pyval \<Rightarrow> world
     \<Rightarrow> (error + unit) \<times> world" where
  "load_config lib fs r self config parser dflt s =
     (let path = path_join lib (config_dir self) config in
      case (case (if truthy parser then get_parser (default_parser self) parser
                  else get_parser_from_file lib fs (default_parser self) path) of
              Inl e \<Rightarrow> (Inl e, s)
            | Inr p \<Rightarrow> call_parser lib fs p path s) of
        (Inr c, s1) \<Rightarrow> (Inr (), cache_store r config c s1)
      | (Inl IOError, s1) \<Rightarrow>
          (if dflt = VStr ''raise''
           then (Inl (ConfigurationError ''Configuration file not found: %s'' path), s1)
           else (case Config lib dflt s1 of
                   (Inl e, s2) \<Rightarrow> (Inl e, s2)
                 | (Inr c, s2) \<Rightarrow> (Inr (), cache_store r config c s2)))
      | (Inl e, s1) \<Rightarrow> (Inl e, s1))"

definition read_config ::
  "pylib \<Rightarrow> filesystem \<Rightarrow> nat \<Rightarrow> string \<Rightarrow> parser_arg \<Rightarrow> pyval \<Rightarrow> world
     \<Rightarrow> (error + nat) \<times> world" where
  "read_config lib fs r config parser dflt s =
     (case readers s r of
        None \<Rightarrow> (Inl NoSuchObject, s)
      | Some self \<Rightarrow>
          (if cache self config = None
           then (case load_config lib fs r self config parser dflt s of
                   (Inl e, s1) \<Rightarrow> (Inl e, s1)
                 | (Inr u, s1) \<Rightarrow> (cache_lookup r config s1, s1))
           else (cache_lookup r config s, s)))"

text \<open>
  \<^verbatim>\<open>reload\<close> (also \<^verbatim>\<open>reset\<close> and \<^verbatim>\<open>clear\<close>): \<^verbatim>\<open>if config:\<close> is false for
  \<^verbatim>\<open>None\<close> and for the empty string.
\<close>

definition reload :: "nat \<Rightarrow> string option \<Rightarrow> world \<Rightarrow> (error + unit) \<times> world" where
  "reload r config s =
     (case readers s r of
        None \<Rightarrow> (Inl NoSuchObject, s)
      | Some self \<Rightarrow>
          (case config of
             None \<Rightarrow> (Inr (), s\<lparr>readers := (readers s)(r \<mapsto> self\<lparr>cache := Map.empty\<rparr>)\<rparr>)
           | Some n \<Rightarrow>
               (if n \<noteq> []
                then (case cache self n of
                        None \<Rightarrow> (Inl (KeyError n), s)
                      | Some c \<Rightarrow>
                          (Inr (), s\<lparr>readers := (readers s)(r \<mapsto> self\<lparr>cache := (cache self)(n := None)\<rparr>)\<rparr>))
                else (Inr (), s\<lparr>readers := (readers s)(r \<mapsto> self\<lparr>cache := Map.empty\<rparr>)\<rparr>))))"

section \<open>A sample environment\<close>

text \<open>
  The examples below run in one small environment: a library that knows the texts the examples
  use and nothing else (it converts no float), the directory \<^verbatim>\<open>/etc/app\<close> with three
  files, the world before any call, and the world after
  \<^verbatim>\<open>CachedConfigReader.get_instance('/etc/app')\<close>.
\<close>

definition sample_lib :: pylib where
  "sample_lib =
     \<lparr>abspath = (\<lambda>p. if startswith p ''/'' then p else ''/srv/'' @ p),
      path_join = (\<lambda>a b. if startswith b ''/'' then b
                           else if a = [] \<or> startswith (rev a) ''/'' then a @ b
                           else a @ ''/'' @ b),
      yaml_safe_load = (\<lambda>t. if t = ''port: 8080'' then Inr (VDict [''port'' \<mapsto> VInt 8080])
                              else if t = ''port: 9090'' then Inr (VDict [''port'' \<mapsto> VInt 9090])
                              else if t = ''{}'' then Inr (VDict Map.empty)
                              else Inl (LibraryError ''YAMLError'')),
      ini_read = (\<lambda>t. if t = ''[server]''
                        then Inr [(''server'', [(''__name__'', VStr ''server'')])]
                        else Inl (LibraryError ''ParsingError'')),
      json_decode = (\<lambda>t. if t = ''{}'' then Inr (VDict Map.empty)
                           else Inl (LibraryError ''ValueError'')),
      int_of_str = [''8080'' \<mapsto> 8080, ''9090'' \<mapsto> 9090],
      int_of_float = (\<lambda>f. None),
      float_of_str = (\<lambda>t. None),
      float_of_int = (\<lambda>i. None),
      dict_of_list = (\<lambda>xs. if xs = [] then Inr Map.empty else Inl DictUpdateError),
      registry_order = [''yaml'', ''ini'', ''conf'', ''json'']\<rparr>"

definition sample_fs :: filesystem where
  "sample_fs =
     [''/etc/app/settings.yaml'' \<mapsto> ''port: 8080'',
      ''/etc/app/settings.json'' \<mapsto> ''port: 8080'',
      ''/etc/app/data.json'' \<mapsto> ''{}'',
      ''/srv/b/b.ini'' \<mapsto> ''[server]'']"

definition world0 :: world where
  "world0 = \<lparr>dir_cache = Map.empty, readers = Map.empty, configs = Map.empty, next_ref = 0\<rparr>"

definition sample_reader :: reader where
  "sample_reader =
     \<lparr>config_dir = ''/etc/app'', default_parser = BoundMethod YamlParser, cache = Map.empty\<rparr>"

definition sample_world :: world where
  "sample_world =
     \<lparr>dir_cache = [''/etc/app'' \<mapsto> 0], readers = [0 \<mapsto> sample_reader],
      configs = Map.empty, next_ref = 1\<rparr>"

definition sample_config :: pydict where
  "sample_config = [''a'' \<mapsto> VDict [''b'' \<mapsto> VDict [''c'' \<mapsto> VInt 5]]]"

definition sample_world_read :: world where
  "sample_world_read =
     \<lparr>dir_cache = [''/etc/app'' \<mapsto> 0],
      readers = [0 \<mapsto> sample_reader\<lparr>cache := [''settings.yaml'' \<mapsto> 1]\<rparr>],
      configs = [1 \<mapsto> [''port'' \<mapsto> VInt 8080]], next_ref = 2\<rparr>"

definition sample_world_two :: world where
  "sample_world_two =
     \<lparr>dir_cache = [''/etc/app'' \<mapsto> 0],
      readers = [0 \<mapsto> sample_reader\<lparr>cache := [[] \<mapsto> 1, ''settings.yaml'' \<mapsto> 2]\<rparr>],
      configs = [1 \<mapsto> Map.empty, 2 \<mapsto> [''port'' \<mapsto> VInt 8080]], next_ref = 3\<rparr>"

definition sample_world_defaulted :: world where
  "sample_world_defaulted =
     \<lparr>dir_cache = [''/etc/app'' \<mapsto> 0],
      readers = [0 \<mapsto> sample_reader\<lparr>cache := [''settings.json'' \<mapsto> 1]\<rparr>],
      configs = [1 \<mapsto> Map.empty], next_ref = 2\<rparr>"

definition sample_world_pair :: world where
  "sample_world_pair =
     \<lparr>dir_cache = [''/etc/app'' \<mapsto> 0, ''/srv/b'' \<mapsto> 2],
      readers = [0 \<mapsto> sample_reader\<lparr>cache := [''settings.yaml'' \<mapsto> 1]\<rparr>,
                 2 \<mapsto> \<lparr>config_dir = ''/srv/b'', default_parser = Function IniParser,
                            cache = [''b.ini'' \<mapsto> 3]\<rparr>],
      configs = [1 \<mapsto> [''port'' \<mapsto> VInt 8080], 3 \<mapsto> [''server'' \<mapsto> VDict Map.empty]],
      next_ref = 4\<rparr>"

definition sample_world_both :: world where
  "sample_world_both =
     \<lparr>dir_cache = [''/etc/app'' \<mapsto> 0],
      readers = [0 \<mapsto> sample_reader\<lparr>cache :=
                   [''settings.yaml'' \<mapsto> 1, ''settings.json'' \<mapsto> 2]\<rparr>],
      configs = [1 \<mapsto> [''port'' \<mapsto> VInt 8080], 2 \<mapsto> Map.empty], next_ref = 3\<rparr>"

definition sample_world_dirs :: world where
  "sample_world_dirs =
     \<lparr>dir_cache = [''/etc/app'' \<mapsto> 0, ''/srv/b'' \<mapsto> 1],
      readers = [0 \<mapsto> sample_reader,
                 1 \<mapsto> \<lparr>config_dir = ''/srv/b'', default_parser = Function IniParser,
                            cache = Map.empty\<rparr>],
      configs = Map.empty, next_ref = 2\<rparr>"

section \<open>Basic facts\<close>

lemma str_split_nonempty: "str_split sep s \<noteq> []"
  by (induction s) (auto split: list.splits)

lemma Config_Inl: "Config lib v s = (Inl e, s') \<Longrightarrow> s' = s"
  by (auto simp: Config_def split: sum.splits)

lemma Config_readers: "readers (snd (Config lib v s)) = readers s"
  by (auto simp: Config_def split: sum.splits)

lemma Config_readersD: "Config lib v s = (x, s') \<Longrightarrow> readers s' = readers s"
  using Config_readers[of lib v s] by simp

lemma yaml_parser_Inl: "yaml_parser lib fs file s = (Inl e, s') \<Longrightarrow> s' = s"
  by (auto simp: yaml_parser_def split: sum.splits dest: Config_Inl)

lemma ini_parser_Inl: "ini_parser lib fs file s = (Inl e, s') \<Longrightarrow> s' = s"
  by (auto simp: ini_parser_def split: sum.splits dest: Config_Inl)

lemma json_parser_Inl: "json_parser lib fs file s = (Inl e, s') \<Longrightarrow> s' = s"
  by (auto simp: json_parser_def split: sum.splits dest: Config_Inl)

lemma call_parser_Inl: "call_parser lib fs p path s = (Inl e, s') \<Longrightarrow> s' = s"
  by (auto simp: call_parser_def split: callable.splits parser_fn.splits
      dest: yaml_parser_Inl ini_parser_Inl json_parser_Inl)

lemma yaml_parser_readers: "readers (snd (yaml_parser lib fs file s)) = readers s"
  by (auto simp: yaml_parser_def Config_readers split: sum.splits)

lemma ini_parser_readers: "readers (snd (ini_parser lib fs file s)) = readers s"
  by (auto simp: ini_parser_def Config_readers split: sum.splits)

lemma json_parser_readers: "readers (snd (json_parser lib fs file s)) = readers s"
  by (auto simp: json_parser_def Config_readers split: sum.splits)

lemma call_parser_readers: "readers (snd (call_parser lib fs p path s)) = readers s"
  by (auto simp: call_parser_def yaml_parser_readers ini_parser_readers json_parser_readers
      split: callable.splits parser_fn.splits)

lemma call_parser_readersD: "call_parser lib fs p path s = (x, s') \<Longrightarrow> readers s' = readers s"
  using call_parser_readers[of lib fs p path s] by simp

text \<open>On a missing file every parser function raises \<^verbatim>\<open>IOError\<close>, from its \<^verbatim>\<open>open\<close>.\<close>

lemma call_parser_missing:
  "fs path = None \<Longrightarrow> call_parser lib fs (Function f) path s = (Inl IOError, s)"
  by (cases f) (simp_all add: call_parser_def yaml_parser_def ini_parser_def json_parser_def open_r_def)

lemma item_Inl: "item xs i = Inl e \<Longrightarrow> e = IndexError"
  by (auto simp: item_def split: if_splits)

text \<open>
  On a missing file \<^verbatim>\<open>get_parser_from_file\<close> either finds a parser by the extension, or
  raises \<^verbatim>\<open>IOError\<close> when it opens the file for its first line.
\<close>

lemma get_parser_from_file_missing:
  "fs path = None \<Longrightarrow>
     get_parser_from_file lib fs dp path = Inl IOError \<or>
     (\<exists>f. get_parser_from_file lib fs dp path = Inr (Function f))"
  by (auto simp: get_parser_from_file_def open_r_def Let_def
      split: sum.splits option.splits error.splits dest: item_Inl)

lemma cache_lookup_store:
  "readers s r = Some self \<Longrightarrow> cache_lookup r config (cache_store r config c s) = Inr c"
  by (simp add: cache_lookup_def cache_store_def)

text \<open>A load that raises leaves the world as it was; one that returns has filled the cache.\<close>

lemma load_config_Inl:
  "load_config lib fs r self config parser dflt s = (Inl e, s') \<Longrightarrow> s' = s"
  by (auto simp: load_config_def Let_def split: sum.splits prod.splits error.splits if_splits
      dest: call_parser_Inl Config_Inl)

lemma load_config_Inr:
  assumes "readers s r = Some self" "load_config lib fs r self config parser dflt s = (Inr u, s')"
  shows "\<exists>c. cache_lookup r config s' = Inr c"
  using assms
  by (auto simp: load_config_def Let_def cache_lookup_store
      split: sum.splits prod.splits error.splits if_splits
      dest!: call_parser_readersD Config_readersD)





text \<open>
  The class attribute \<^verbatim>\<open>default_parser\<close> reaches a reader made without a parser argument
  as a bound method, and calling it raises \<^verbatim>\<open>TypeError\<close>.
\<close>

lemma default_parser_of_plain_reader:
  "CachedConfigReader dir PNone =
     Inr \<lparr>config_dir = dir, default_parser = BoundMethod YamlParser, cache = Map.empty\<rparr> \<and>
   call_parser lib fs (BoundMethod YamlParser) path s = (Inl TypeError, s)"
  by (simp add: CachedConfigReader_def get_parser_def class_default_parser_def call_parser_def)

text \<open>
  Only \<^verbatim>\<open>get_instance\<close> writes the registry of readers, and it never replaces an entry.
\<close>

lemma Config_dir_cacheD: "Config lib v s = (x, s') \<Longrightarrow> dir_cache s' = dir_cache s"
  by (auto simp: Config_def split: sum.splits)

lemma call_parser_dir_cacheD:
  "call_parser lib fs p path s = (x, s') \<Longrightarrow> dir_cache s' = dir_cache s"
  by (auto simp: call_parser_def yaml_parser_def ini_parser_def json_parser_def
      split: callable.splits parser_fn.splits sum.splits dest: Config_dir_cacheD)

lemma cache_store_dir_cache: "dir_cache (cache_store r config c s) = dir_cache s"
  by (simp add: cache_store_def split: option.splits)

lemma load_config_dir_cacheD:
  assumes "load_config lib fs r self config parser dflt s = (x, s')"
  shows "dir_cache s' = dir_cache s"
proof (cases x)
  case (Inl e)
  then have "s' = s" using assms load_config_Inl by simp
  then show ?thesis by simp
next
  case (Inr u)
  then have "load_config lib fs r self config parser dflt s = (Inr u, s')" using assms by simp
  then show ?thesis
    by (auto simp: load_config_def Let_def cache_store_dir_cache
        split: sum.splits prod.splits error.splits if_splits
        dest!: call_parser_dir_cacheD Config_dir_cacheD)
qed

lemma read_config_dir_cacheD:
  assumes "read_config lib fs r name p d s = (x, s')"
  shows "dir_cache s' = dir_cache s"
proof (cases "readers s r")
  case None
  then show ?thesis using assms by (simp add: read_config_def)
next
  case (Some self)
  obtain res s2 where l: "load_config lib fs r self name p d s = (res, s2)"
    by (cases "load_config lib fs r self name p d s")
  have "s' = s \<or> s' = s2"
    using assms Some l by (cases res) (auto simp: read_config_def split: if_splits)
  then show ?thesis using load_config_dir_cacheD[OF l] by auto
qed

lemma reload_dir_cacheD: "reload r cfg s = (x, s') \<Longrightarrow> dir_cache s' = dir_cache s"
  by (auto simp: reload_def split: option.splits if_splits)

lemma get_instance_keeps_registry:
  assumes "dir_cache s path = Some r" and "get_instance lib dir p s = (x, s')"
  shows "dir_cache s' path = Some r"
  using assms
  by (auto simp: get_instance_def Let_def split: option.splits sum.splits)

lemma get_instance_registered:
  "get_instance lib dir p s = (Inr r, s1) \<Longrightarrow> dir_cache s1 (abspath lib dir) = Some r"
  by (auto simp: get_instance_def Let_def split: option.splits sum.splits)

lemma get_instance_hit:
  "dir_cache s (abspath lib dir) = Some r \<Longrightarrow> get_instance lib dir p s = (Inr r, s)"
  by (simp add: get_instance_def)

lemma load_config_missing:
  assumes "fs (path_join lib (config_dir self) name) = None"
  shows "load_config lib fs r self name PNone d s =
     (if d = VStr ''raise''
      then (Inl (ConfigurationError ''Configuration file not found: %s''
                  (path_join lib (config_dir self) name)), s)
      else (case Config lib d s of
              (Inl e, s2) \<Rightarrow> (Inl e, s2)
            | (Inr c, s2) \<Rightarrow> (Inr (), cache_store r name c s2)))"
proof -
  let ?path = "path_join lib (config_dir self) name"
  have a: "call_parser lib fs (Function f) ?path s = (Inl IOError, s)" for f
    using assms by (rule call_parser_missing)
  have b: "get_parser_from_file lib fs (default_parser self) ?path = Inl IOError \<or>
     (\<exists>f. get_parser_from_file lib fs (default_parser self) ?path = Inr (Function f))"
    using assms by (rule get_parser_from_file_missing)
  show ?thesis
    using b by (auto simp: load_config_def Let_def truthy_def a)
qed

text \<open>An explicit parser argument is resolved without a look at the path or the file.\<close>

lemma load_config_explicit:
  assumes "parser = PFunc f \<or> (parser = PName n \<and> parsers_dict n = Some f)"
  shows "load_config lib fs r self name parser d s =
     (let path = path_join lib (config_dir self) name in
      case call_parser lib fs (Function f) path s of
        (Inr c, s1) \<Rightarrow> (Inr (), cache_store r name c s1)
      | (Inl IOError, s1) \<Rightarrow>
          (if d = VStr ''raise''
           then (Inl (ConfigurationError ''Configuration file not found: %s'' path), s1)
           else (case Config lib d s1 of
                   (Inl e, s2) \<Rightarrow> (Inl e, s2)
                 | (Inr c, s2) \<Rightarrow> (Inr (), cache_store r name c s2)))
      | (Inl e, s1) \<Rightarrow> (Inl e, s1))"
proof -
  have "parsers_dict [] = None" by (simp add: parsers_dict_def)
  then have "truthy parser \<and> get_parser (default_parser self) parser = Inr (Function f)"
    using assms by (cases f) (auto simp: truthy_def get_parser_def parsers_set_def)
  then show ?thesis by (simp add: load_config_def)
qed

subsection \<open>The sample environment\<close>

lemmas sample_defs =
  sample_lib_def sample_fs_def world0_def sample_reader_def sample_world_def
  sample_world_read_def sample_world_two_def sample_world_defaulted_def sample_world_pair_def
  sample_world_both_def sample_world_dirs_def sample_config_def

lemmas reader_defs =
  read_config_def load_config_def reload_def get_instance_def CachedConfigReader_def
  get_parser_def get_parser_from_file_def class_default_parser_def truthy_def
  item_def rsplit1_def readline_def lower_def startswith_def iteritems_def
  parsers_dict_def parsers_set_def call_parser_def yaml_parser_def ini_parser_def
  json_parser_def open_r_def yaml_load_def json_loads_def Config_def py_dict_def
  cache_store_def cache_lookup_def Let_def eval_nat_numeral

lemma sample_world_reached:
  "get_instance sample_lib ''/etc/app'' PNone world0 = (Inr 0, sample_world)"
  by (simp add: sample_defs reader_defs)


lemma sample_world_two_reached:
  "read_config sample_lib sample_fs 0 ''settings.yaml'' PNone VNone
     (snd (read_config sample_lib sample_fs 0 [] PNone (VDict Map.empty) sample_world)) =
     (Inr 2, sample_world_two)"
  by (simp add: sample_defs reader_defs)

lemma sample_world_defaulted_reached:
  "read_config sample_lib Map.empty 0 ''settings.json'' PNone (VDict Map.empty) sample_world =
     (Inr 1, sample_world_defaulted)"
  by (simp add: sample_defs reader_defs)

lemma sample_world_pair_reached:
  "get_instance sample_lib ''/srv/b'' (PName ''ini'') sample_world_read =
     (Inr 2, sample_world_read\<lparr>dir_cache := [''/etc/app'' \<mapsto> 0, ''/srv/b'' \<mapsto> 2],
        readers := [0 \<mapsto> sample_reader\<lparr>cache := [''settings.yaml'' \<mapsto> 1]\<rparr>,
                    2 \<mapsto> \<lparr>config_dir = ''/srv/b'', default_parser = Function IniParser,
                               cache = Map.empty\<rparr>],
        next_ref := 3\<rparr>) \<and>
   read_config sample_lib sample_fs 2 ''b.ini'' PNone VNone
     (snd (get_instance sample_lib ''/srv/b'' (PName ''ini'') sample_world_read)) =
     (Inr 3, sample_world_pair)"
  by (simp add: sample_defs reader_defs del_name_def sections_value_def)

section \<open>Dotted lookup and typed getters\<close>

lemma descend_append:
  "descend r (ks @ ls) = (case descend r ks of Inl e \<Rightarrow> Inl e | Inr v \<Rightarrow> descend v ls)"
  by (induction ks arbitrary: r) (auto split: pyval.splits option.splits)

text \<open>
  A path that goes on below a value that is no dictionary raises \<^verbatim>\<open>TypeError\<close> in
  \<^verbatim>\<open>__getitem__\<close>, and \<^verbatim>\<open>get\<close> lets it through whatever the default.
\<close>

lemma get_below_leaf:
  assumes "str_split (CHR ''.'') key = ks @ k # ls"
    and "descend (VDict self) ks = Inr v"
    and "\<And>m. v \<noteq> VDict m"
  shows "get self key d = Inl TypeError"
proof -
  have "descend v (k # ls) = Inl TypeError"
    using assms(3) by (cases v) auto
  then show ?thesis
    using assms(1,2) by (simp add: get_def getitem_def descend_append)
qed

lemma get_missing_key:
  assumes "getitem self key = Inl (KeyError x)"
  shows "get self key d = Inr d"
  using assms by (simp add: get_def)

text \<open>
  C1. The claim: when a segment of a dotted path resolves to a leaf and the path goes on,
  \<^verbatim>\<open>get(path, default)\<close> returns the default; for \<^verbatim>\<open>{"a": {"b": {"c": 5}}}\<close>,
  \<^verbatim>\<open>get("a.b.c")\<close> is 5, \<^verbatim>\<open>get("a.b.x", 42)\<close> is 42 and \<^verbatim>\<open>get("a.b.c.d", 9)\<close> is 9.
  The code gives the first two results and raises \<^verbatim>\<open>TypeError\<close> on the third:
  \<^verbatim>\<open>get\<close> catches \<^verbatim>\<open>KeyError\<close> only.
\<close>

theorem get_dotted_examples:
  "get sample_config ''a.b.c'' VNone = Inr (VInt 5) \<and>
   get sample_config ''a.b.x'' (VInt 42) = Inr (VInt 42) \<and>
   get sample_config ''a.b.c.d'' (VInt 9) = Inl TypeError"
  by (simp add: get_def getitem_def sample_config_def)

lemma get_int_conversion_type_error:
  assumes "getitem self k = Inr v" and "py_int lib v = Inl TypeError"
  shows "get_int lib self k d =
     (if d = VStr ''raise'' then Inl (ValueError (''Not a leaf or not an integer: '' @ k))
      else Inr d)"
  using assms by (simp add: get_int_def get_def)

lemma get_float_conversion_type_error:
  assumes "getitem self k = Inr v" and "py_float lib v = Inl TypeError"
  shows "get_float lib self k d =
     (if d = VStr ''raise'' then Inl (ValueError (''Not a leaf or not a float: '' @ k))
      else Inr d)"
  using assms by (simp add: get_float_def get_def)

text \<open>
  A string leaf that is no number: \<^verbatim>\<open>int()\<close> and \<^verbatim>\<open>float()\<close> raise
  \<^verbatim>\<open>ValueError\<close>, which the getters do not catch.
\<close>

lemma get_int_invalid_literal:
  assumes "getitem self k = Inr (VStr t)" and "int_of_str lib t = None"
  shows "get_int lib self k d = Inl (InvalidLiteral t)"
  using assms by (simp add: get_int_def get_def py_int_def)

lemma get_float_invalid_literal:
  assumes "getitem self k = Inr (VStr t)" and "float_of_str lib t = None"
  shows "get_float lib self k d = Inl (InvalidLiteral t)"
  using assms by (simp add: get_float_def get_def py_float_def)

text \<open>
  C3. The claim: on a leaf that cannot be coerced, \<^verbatim>\<open>get_int\<close> and \<^verbatim>\<open>get_float\<close>
  return the default unchanged, or with the default \<^verbatim>\<open>"raise"\<close> fail with an error that
  names the key. The code does so on a list leaf; on the string leaf \<^verbatim>\<open>"abc"\<close> the
  \<^verbatim>\<open>ValueError\<close> of the builtin escapes, whatever the default.
\<close>

theorem get_int_string_leaf:
  "get_int sample_lib [''port'' \<mapsto> VStr ''abc''] ''port'' (VInt 0) = Inl (InvalidLiteral ''abc'') \<and>
   get_int sample_lib [''port'' \<mapsto> VStr ''abc''] ''port'' (VStr ''raise'') = Inl (InvalidLiteral ''abc'') \<and>
   get_float sample_lib [''port'' \<mapsto> VStr ''abc''] ''port'' (VInt 0) = Inl (InvalidLiteral ''abc'') \<and>
   get_float sample_lib [''port'' \<mapsto> VStr ''abc''] ''port'' (VStr ''raise'') = Inl (InvalidLiteral ''abc'') \<and>
   get_int sample_lib [''port'' \<mapsto> VList [VInt 1]] ''port'' (VInt 0) = Inr (VInt 0) \<and>
   get_int sample_lib [''port'' \<mapsto> VList [VInt 1]] ''port'' (VStr ''raise'') =
     Inl (ValueError ''Not a leaf or not an integer: port'')"
  by (simp add: get_int_def get_float_def get_def getitem_def py_int_def py_float_def sample_lib_def)

section \<open>The JSON parser\<close>

lemma json_parser_existing_file:
  "fs file = Some txt \<Longrightarrow> json_parser lib fs file s = (Inl TypeError, s)"
  by (simp add: json_parser_def open_r_def json_loads_def)

lemma json_parser_never_returns: "fst (json_parser lib fs file s) \<noteq> Inr c"
  by (cases "fs file") (simp_all add: json_parser_def open_r_def json_loads_def)

text \<open>
  C2. The claim: on a file holding a JSON object, \<^verbatim>\<open>json_parser\<close> returns the document
  as a \<^verbatim>\<open>Config\<close>. The code passes the open file, not its text, to \<^verbatim>\<open>json.loads\<close>:
  on \<^verbatim>\<open>/etc/app/data.json\<close>, whose text \<^verbatim>\<open>{}\<close> the JSON decoder accepts, it raises
  \<^verbatim>\<open>TypeError\<close> and creates nothing.
\<close>

theorem json_parser_valid_document:
  "sample_fs ''/etc/app/data.json'' = Some ''{}'' \<and>
   json_decode sample_lib ''{}'' = Inr (VDict Map.empty) \<and>
   json_parser sample_lib sample_fs ''/etc/app/data.json'' sample_world = (Inl TypeError, sample_world)"
  by (simp add: json_parser_def open_r_def json_loads_def sample_fs_def sample_lib_def)

section \<open>The reader registry\<close>

text \<open>
  C6. \<^verbatim>\<open>get_instance(D)\<close> with no parser argument always returns a reader. Once a call
  for \<open>D\<close> has returned the reader \<open>r\<close>, every later call for a directory with the same
  absolute path returns \<open>r\<close> again and leaves the world as it is, whatever its parser
  argument: directly after the first call, and after any call of \<^verbatim>\<open>get_instance\<close> (for
  any directory), \<^verbatim>\<open>read_config\<close> or \<^verbatim>\<open>reload\<close> in between.
\<close>

theorem get_instance_singleton:
  "(\<exists>r s1. get_instance lib dir PNone s = (Inr r, s1)) \<and>
   (get_instance lib dir p s = (Inr r, s1) \<and> abspath lib dir' = abspath lib dir
       \<longrightarrow> get_instance lib dir' p' s1 = (Inr r, s1)) \<and>
   (get_instance lib dir p s = (Inr r, s1) \<and> abspath lib dir' = abspath lib dir \<and>
    (get_instance lib dir2 p2 s1 = (x, s2) \<or>
     read_config lib fs r3 name3 p3 d3 s1 = (x, s2) \<or>
     reload r4 cfg s1 = (y, s2))
       \<longrightarrow> get_instance lib dir' p' s2 = (Inr r, s2))"
proof -
  have first: "\<exists>r s1. get_instance lib dir PNone s = (Inr r, s1)"
    by (auto simp: get_instance_def Let_def CachedConfigReader_def get_parser_def
        split: option.splits sum.splits)
  have again: "get_instance lib dir' p' t = (Inr r, t)"
    if "dir_cache t (abspath lib dir) = Some r" "abspath lib dir' = abspath lib dir" for t
    using that by (simp add: get_instance_hit)
  have reg: "dir_cache s1 (abspath lib dir) = Some r" if "get_instance lib dir p s = (Inr r, s1)"
    using that by (rule get_instance_registered)
  have later: "dir_cache s2 (abspath lib dir) = Some r"
    if "get_instance lib dir p s = (Inr r, s1)"
      and "get_instance lib dir2 p2 s1 = (x, s2) \<or>
           read_config lib fs r3 name3 p3 d3 s1 = (x, s2) \<or>
           reload r4 cfg s1 = (y, s2)"
  proof -
    have a: "dir_cache s1 (abspath lib dir) = Some r" using that(1) by (rule reg)
    from that(2) show ?thesis
    proof (elim disjE)
      assume "get_instance lib dir2 p2 s1 = (x, s2)"
      with a show ?thesis by (rule get_instance_keeps_registry)
    next
      assume "read_config lib fs r3 name3 p3 d3 s1 = (x, s2)"
      then have "dir_cache s2 = dir_cache s1" by (rule read_config_dir_cacheD)
      then show ?thesis using a by simp
    next
      assume "reload r4 cfg s1 = (y, s2)"
      then have "dir_cache s2 = dir_cache s1" by (rule reload_dir_cacheD)
      then show ?thesis using a by simp
    qed
  qed
  show ?thesis
    using first again reg later by blast
qed

theorem get_instance_singleton_witness:
  "get_instance sample_lib ''/etc/app'' PNone world0 = (Inr 0, sample_world) \<and>
   abspath sample_lib ''/etc/app'' = abspath sample_lib ''/etc/app'' \<and>
   get_instance sample_lib ''/etc/app'' (PName ''ini'') sample_world = (Inr 0, sample_world) \<and>
   get_instance sample_lib ''/srv/b'' (PName ''ini'') sample_world = (Inr 1, sample_world_dirs) \<and>
   get_instance sample_lib ''/etc/app'' (PName ''ini'') sample_world_dirs = (Inr 0, sample_world_dirs)"
proof -
  have a: "get_instance sample_lib ''/etc/app'' PNone world0 = (Inr 0, sample_world)"
    by (rule sample_world_reached)
  have b: "get_instance sample_lib ''/srv/b'' (PName ''ini'') sample_world = (Inr 1, sample_world_dirs)"
    by (simp add: sample_defs reader_defs)
  show ?thesis
    using get_instance_singleton[where lib = sample_lib and dir = "''/etc/app''" and p = PNone
      and s = world0 and r = 0 and ?s1.0 = sample_world and dir' = "''/etc/app''"
      and p' = "PName ''ini''" and ?dir2.0 = "''/srv/b''" and ?p2.0 = "PName ''ini''"
      and x = "Inr 1" and ?s2.0 = sample_world_dirs] a b
    by simp
qed

section \<open>Reading and caching\<close>



text \<open>
  C9. When \<^verbatim>\<open>read_config(name, ...)\<close> raises, the world is as before the call and the
  reader has no entry under \<open>name\<close>, so the next \<^verbatim>\<open>read_config(name)\<close> chooses a
  parser and loads again.
\<close>

theorem read_config_raise_keeps_cache:
  assumes "readers s r = Some self" and "read_config lib fs r name parser d s = (Inl e, s1)"
  shows "s1 = s \<and> cache self name = None \<and>
     read_config lib' fs' r name parser' d' s1 =
       (case load_config lib' fs' r self name parser' d' s of
          (Inl e', s2) \<Rightarrow> (Inl e', s2)
        | (Inr u, s2) \<Rightarrow> (cache_lookup r name s2, s2))"
proof -
  have nc: "cache self name = None"
    using assms by (auto simp: read_config_def cache_lookup_def split: if_splits)
  obtain res s2 where l: "load_config lib fs r self name parser d s = (res, s2)"
    by (cases "load_config lib fs r self name parser d s")
  have same: "s1 = s"
  proof (cases res)
    case (Inl e')
    then show ?thesis
      using assms l nc load_config_Inl[of lib fs r self name parser d s e' s2]
      by (simp add: read_config_def)
  next
    case (Inr u)
    then show ?thesis
      using assms l nc load_config_Inr[of s r self lib fs name parser d u s2]
      by (auto simp: read_config_def)
  qed
  show ?thesis
    using same nc assms(1) by (simp add: read_config_def)
qed

theorem read_config_raise_keeps_cache_witness:
  "readers sample_world 0 = Some sample_reader \<and>
   read_config sample_lib Map.empty 0 ''settings.yaml'' PNone (VStr ''raise'') sample_world =
     (Inl (ConfigurationError ''Configuration file not found: %s'' ''/etc/app/settings.yaml''),
      sample_world) \<and>
   cache sample_reader ''settings.yaml'' = None \<and>
   read_config sample_lib sample_fs 0 ''settings.yaml'' PNone (VStr ''raise'') sample_world =
     (Inr 1, sample_world_read)"
proof -
  have a: "readers sample_world 0 = Some sample_reader"
    by (simp add: sample_defs)
  have b: "read_config sample_lib Map.empty 0 ''settings.yaml'' PNone (VStr ''raise'') sample_world =
     (Inl (ConfigurationError ''Configuration file not found: %s'' ''/etc/app/settings.yaml''),
      sample_world)"
    by (simp add: sample_defs reader_defs)
  have c: "read_config sample_lib sample_fs 0 ''settings.yaml'' PNone (VStr ''raise'') sample_world =
     (Inr 1, sample_world_read)"
    by (simp add: sample_defs reader_defs)
  show ?thesis
    using read_config_raise_keeps_cache[OF a b, of sample_lib sample_fs PNone "VStr ''raise''"] a b c
    by simp
qed

text \<open>
  C4 (as amended). For a reader that has no entry under \<open>name\<close> and a file that cannot be
  opened: \<^verbatim>\<open>read_config(name, default="raise")\<close> raises \<^verbatim>\<open>ConfigurationError\<close> with
  the joined path and changes nothing; \<^verbatim>\<open>read_config(name, default=D)\<close>, for any other
  \<open>D\<close> that \<^verbatim>\<open>dict()\<close> accepts, returns a new \<^verbatim>\<open>Config\<close> holding \<^verbatim>\<open>dict(D)\<close> and
  stores it under \<open>name\<close>.
\<close>

theorem read_config_missing_file:
  assumes "readers s r = Some self" and "cache self name = None"
    and "fs (path_join lib (config_dir self) name) = None"
  shows "read_config lib fs r name PNone (VStr ''raise'') s =
           (Inl (ConfigurationError ''Configuration file not found: %s''
                  (path_join lib (config_dir self) name)), s)
       \<and> (d \<noteq> VStr ''raise'' \<and> py_dict lib d = Inr m \<longrightarrow>
             read_config lib fs r name PNone d s =
               (Inr (next_ref s),
                s\<lparr>readers := (readers s)(r \<mapsto> self\<lparr>cache := (cache self)(name \<mapsto> next_ref s)\<rparr>),
                  configs := (configs s)(next_ref s \<mapsto> m),
                  next_ref := Suc (next_ref s)\<rparr>))"
  using assms
  by (auto simp: read_config_def load_config_missing Config_def cache_store_def cache_lookup_def)

theorem read_config_missing_file_witness:
  "readers sample_world 0 = Some sample_reader \<and>
   cache sample_reader ''absent.yaml'' = None \<and>
   sample_fs (path_join sample_lib (config_dir sample_reader) ''absent.yaml'') = None \<and>
   read_config sample_lib sample_fs 0 ''absent.yaml'' PNone (VStr ''raise'') sample_world =
     (Inl (ConfigurationError ''Configuration file not found: %s'' ''/etc/app/absent.yaml''),
      sample_world) \<and>
   VDict [''k'' \<mapsto> VInt 1] \<noteq> VStr ''raise'' \<and>
   py_dict sample_lib (VDict [''k'' \<mapsto> VInt 1]) = Inr [''k'' \<mapsto> VInt 1] \<and>
   read_config sample_lib sample_fs 0 ''absent.yaml'' PNone (VDict [''k'' \<mapsto> VInt 1]) sample_world =
     (Inr 1,
      sample_world\<lparr>readers := [0 \<mapsto> sample_reader\<lparr>cache := [''absent.yaml'' \<mapsto> 1]\<rparr>],
        configs := [1 \<mapsto> [''k'' \<mapsto> VInt 1]], next_ref := 2\<rparr>)"
proof -
  have a: "readers sample_world 0 = Some sample_reader"
    by (simp add: sample_defs)
  have b: "cache sample_reader ''absent.yaml'' = None"
    by (simp add: sample_defs)
  have c: "sample_fs (path_join sample_lib (config_dir sample_reader) ''absent.yaml'') = None"
    by (simp add: sample_defs startswith_def)
  have p: "path_join sample_lib (config_dir sample_reader) ''absent.yaml'' = ''/etc/app/absent.yaml''"
    by (simp add: sample_defs startswith_def)
  have d: "py_dict sample_lib (VDict [''k'' \<mapsto> VInt 1]) = Inr [''k'' \<mapsto> VInt 1]"
    by (simp add: py_dict_def)
  have e: "next_ref sample_world = 1" "readers sample_world = [0 \<mapsto> sample_reader]"
    "cache sample_reader = Map.empty" "configs sample_world = Map.empty"
    by (simp_all add: sample_defs)
  show ?thesis
    using read_config_missing_file[where s = sample_world and r = 0 and self = sample_reader
        and name = "''absent.yaml''" and fs = sample_fs and lib = sample_lib
        and d = "VDict [''k'' \<mapsto> VInt 1]" and m = "[''k'' \<mapsto> VInt 1]"]
      a b c d
    by (simp add: p e eval_nat_numeral)
qed

text \<open>
  The claim as first stated fails twice. A file that was missing at a first read with a default
  is cached: the next \<^verbatim>\<open>read_config(name, default="raise")\<close> returns that object and
  raises nothing. And a default that is no mapping, here 5, gives the \<^verbatim>\<open>TypeError\<close> of
  \<^verbatim>\<open>Config(5)\<close>.
\<close>

theorem read_config_missing_file_counterexample:
  "read_config sample_lib Map.empty 0 ''settings.json'' PNone (VDict Map.empty) sample_world =
     (Inr 1, sample_world_defaulted) \<and>
   read_config sample_lib Map.empty 0 ''settings.json'' PNone (VStr ''raise'') sample_world_defaulted =
     (Inr 1, sample_world_defaulted) \<and>
   read_config sample_lib Map.empty 0 ''settings.json'' PNone (VInt 5) sample_world =
     (Inl TypeError, sample_world)"
  by (simp add: sample_defs reader_defs)

text \<open>
  C5 (as amended). For a reader that has no entry under \<open>name\<close> and an explicit parser
  argument that is one of the three parser functions or a name of the registry: the call runs
  that parser on the joined path, whatever the extension of \<open>name\<close>. What the parser returns
  is cached and returned; what it raises, other than \<^verbatim>\<open>IOError\<close>, is raised; on
  \<^verbatim>\<open>IOError\<close> the call raises \<^verbatim>\<open>ConfigurationError\<close> with the default
  \<^verbatim>\<open>"raise"\<close>, and caches and returns \<^verbatim>\<open>Config(default)\<close> otherwise.
\<close>

theorem explicit_parser_invoked:
  assumes "readers s r = Some self" and "cache self name = None"
    and "parser = PFunc f \<or> (parser = PName n \<and> parsers_dict n = Some f)"
    and "call_parser lib fs (Function f) (path_join lib (config_dir self) name) s = (res, s1)"
  shows "(res = Inr c \<longrightarrow>
            read_config lib fs r name parser d s = (Inr c, cache_store r name c s1))
       \<and> (res = Inl e \<and> e \<noteq> IOError \<longrightarrow> read_config lib fs r name parser d s = (Inl e, s))
       \<and> (res = Inl IOError \<and> d = VStr ''raise'' \<longrightarrow>
            read_config lib fs r name parser d s =
              (Inl (ConfigurationError ''Configuration file not found: %s''
                     (path_join lib (config_dir self) name)), s))
       \<and> (res = Inl IOError \<and> d \<noteq> VStr ''raise'' \<and> py_dict lib d = Inr m \<longrightarrow>
            read_config lib fs r name parser d s =
              (Inr (next_ref s),
               s\<lparr>readers := (readers s)(r \<mapsto> self\<lparr>cache := (cache self)(name \<mapsto> next_ref s)\<rparr>),
                 configs := (configs s)(next_ref s \<mapsto> m),
                 next_ref := Suc (next_ref s)\<rparr>))"
proof -
  have rd: "readers s1 = readers s"
    using assms(4) by (rule call_parser_readersD)
  have fail: "res = Inl e' \<Longrightarrow> s1 = s" for e'
    using assms(4) call_parser_Inl by blast
  have lk: "cache_lookup r name (cache_store r name c s1) = Inr c"
    using assms(1) rd by (simp add: cache_lookup_store)
  have dflt: "res = Inl IOError \<Longrightarrow> d \<noteq> VStr ''raise'' \<Longrightarrow> py_dict lib d = Inr m \<Longrightarrow>
      read_config lib fs r name parser d s =
        (Inr (next_ref s),
         s\<lparr>readers := (readers s)(r \<mapsto> self\<lparr>cache := (cache self)(name \<mapsto> next_ref s)\<rparr>),
           configs := (configs s)(next_ref s \<mapsto> m),
           next_ref := Suc (next_ref s)\<rparr>)"
    using assms(1,2,4) fail[of IOError]
    by (simp add: read_config_def load_config_explicit[OF assms(3)] Let_def Config_def
        cache_store_def cache_lookup_def)
  have main: "(res = Inr c \<longrightarrow>
            read_config lib fs r name parser d s = (Inr c, cache_store r name c s1))
       \<and> (res = Inl e \<and> e \<noteq> IOError \<longrightarrow> read_config lib fs r name parser d s = (Inl e, s))
       \<and> (res = Inl IOError \<and> d = VStr ''raise'' \<longrightarrow>
            read_config lib fs r name parser d s =
              (Inl (ConfigurationError ''Configuration file not found: %s''
                     (path_join lib (config_dir self) name)), s))"
    using assms(1,2,4) fail lk
    by (cases e) (auto simp: read_config_def load_config_explicit[OF assms(3)] Let_def)
  show ?thesis using main dflt by blast
qed

theorem explicit_parser_invoked_witness:
  "readers sample_world 0 = Some sample_reader \<and>
   cache sample_reader ''settings.json'' = None \<and>
   parsers_dict ''yaml'' = Some YamlParser \<and>
   call_parser sample_lib sample_fs (Function YamlParser) ''/etc/app/settings.json'' sample_world =
     yaml_parser sample_lib sample_fs ''/etc/app/settings.json'' sample_world \<and>
   yaml_parser sample_lib sample_fs ''/etc/app/settings.json'' sample_world =
     (Inr 1, sample_world\<lparr>configs := [1 \<mapsto> [''port'' \<mapsto> VInt 8080]], next_ref := 2\<rparr>) \<and>
   read_config sample_lib sample_fs 0 ''settings.json'' (PName ''yaml'') VNone sample_world =
     (Inr 1,
      sample_world\<lparr>readers := [0 \<mapsto> sample_reader\<lparr>cache := [''settings.json'' \<mapsto> 1]\<rparr>],
        configs := [1 \<mapsto> [''port'' \<mapsto> VInt 8080]], next_ref := 2\<rparr>)"
proof -
  have a: "readers sample_world 0 = Some sample_reader"
    by (simp add: sample_defs)
  have b: "cache sample_reader ''settings.json'' = None"
    by (simp add: sample_defs)
  have c: "PName ''yaml'' = PFunc YamlParser \<or>
      (PName ''yaml'' = PName ''yaml'' \<and> parsers_dict ''yaml'' = Some YamlParser)"
    by (simp add: parsers_dict_def)
  have p: "path_join sample_lib (config_dir sample_reader) ''settings.json'' = ''/etc/app/settings.json''"
    by (simp add: sample_defs startswith_def)
  have y: "yaml_parser sample_lib sample_fs ''/etc/app/settings.json'' sample_world =
     (Inr 1, sample_world\<lparr>configs := [1 \<mapsto> [''port'' \<mapsto> VInt 8080]], next_ref := 2\<rparr>)"
    by (simp add: sample_defs reader_defs)
  have d: "call_parser sample_lib sample_fs (Function YamlParser)
      (path_join sample_lib (config_dir sample_reader) ''settings.json'') sample_world =
     (Inr 1, sample_world\<lparr>configs := [1 \<mapsto> [''port'' \<mapsto> VInt 8080]], next_ref := 2\<rparr>)"
    using y by (simp add: p call_parser_def)
  have st: "cache_store 0 ''settings.json'' 1
       (sample_world\<lparr>configs := [1 \<mapsto> [''port'' \<mapsto> VInt 8080]], next_ref := 2\<rparr>) =
     sample_world\<lparr>readers := [0 \<mapsto> sample_reader\<lparr>cache := [''settings.json'' \<mapsto> 1]\<rparr>],
        configs := [1 \<mapsto> [''port'' \<mapsto> VInt 8080]], next_ref := 2\<rparr>"
    by (simp add: sample_defs cache_store_def)
  show ?thesis
    using explicit_parser_invoked[where s = sample_world and r = 0 and self = sample_reader
        and name = "''settings.json''" and parser = "PName ''yaml''" and f = YamlParser
        and n = "''yaml''" and lib = sample_lib and fs = sample_fs and res = "Inr 1"
        and ?s1.0 = "sample_world\<lparr>configs := [1 \<mapsto> [''port'' \<mapsto> VInt 8080]], next_ref := 2\<rparr>"
        and c = 1 and d = VNone] a b c d y st
    by (simp add: call_parser_def)
qed

text \<open>
  The claim as first stated fails on a name that is already cached: the file
  \<^verbatim>\<open>settings.json\<close> was missing at a first read, its default is cached as object 1, and a
  later \<^verbatim>\<open>read_config('settings.json', parser='yaml')\<close> returns object 1 and changes
  nothing, where the YAML parser on that path would have made object 2. And a name that the
  registry does not hold, here \<^verbatim>\<open>xml\<close>, raises \<^verbatim>\<open>KeyError\<close>.
\<close>

theorem explicit_parser_invoked_counterexample:
  "read_config sample_lib sample_fs 0 ''settings.json'' (PName ''yaml'') VNone sample_world_defaulted =
     (Inr 1, sample_world_defaulted) \<and>
   yaml_parser sample_lib sample_fs ''/etc/app/settings.json'' sample_world_defaulted =
     (Inr 2, sample_world_defaulted\<lparr>configs := [1 \<mapsto> Map.empty, 2 \<mapsto> [''port'' \<mapsto> VInt 8080]],
        next_ref := 3\<rparr>) \<and>
   read_config sample_lib sample_fs 0 ''settings.json'' (PName ''xml'') VNone sample_world =
     (Inl (KeyError ''xml''), sample_world)"
  by (simp add: sample_defs reader_defs)

section \<open>Reloading\<close>

text \<open>
  C8 (as amended). For a reader \<open>R\<close> and a non-empty name \<open>N\<close>: after \<^verbatim>\<open>R.reload(N)\<close> the
  cache of \<open>R\<close> is its old cache without \<open>N\<close>, every other entry as before, and a following
  \<^verbatim>\<open>read_config(N)\<close> chooses a parser and loads again. \<^verbatim>\<open>R.reload()\<close> with no argument,
  and \<^verbatim>\<open>R.reload('')\<close>, empty the cache of \<open>R\<close>. No call of \<^verbatim>\<open>reload\<close> touches another
  reader, the registry of readers or a \<^verbatim>\<open>Config\<close> object.
\<close>

theorem reload_evicts:
  assumes "readers s r = Some self"
  shows "(n \<noteq> [] \<longrightarrow>
            snd (reload r (Some n) s) =
              s\<lparr>readers := (readers s)(r \<mapsto> self\<lparr>cache := (cache self)(n := None)\<rparr>)\<rparr> \<and>
            read_config lib fs r n p d (snd (reload r (Some n) s)) =
              (case load_config lib fs r (self\<lparr>cache := (cache self)(n := None)\<rparr>) n p d
                      (snd (reload r (Some n) s)) of
                 (Inl e, s1) \<Rightarrow> (Inl e, s1)
               | (Inr u, s1) \<Rightarrow> (cache_lookup r n s1, s1)))
       \<and> reload r None s = (Inr (), s\<lparr>readers := (readers s)(r \<mapsto> self\<lparr>cache := Map.empty\<rparr>)\<rparr>)
       \<and> reload r (Some []) s = (Inr (), s\<lparr>readers := (readers s)(r \<mapsto> self\<lparr>cache := Map.empty\<rparr>)\<rparr>)
       \<and> (r' \<noteq> r \<longrightarrow> readers (snd (reload r cfg s)) r' = readers s r')
       \<and> dir_cache (snd (reload r cfg s)) = dir_cache s
       \<and> configs (snd (reload r cfg s)) = configs s"
proof -
  have upd: "snd (reload r (Some n) s) =
      s\<lparr>readers := (readers s)(r \<mapsto> self\<lparr>cache := (cache self)(n := None)\<rparr>)\<rparr>" if "n \<noteq> []"
  proof (cases "cache self n")
    case None
    then have "(cache self)(n := None) = cache self" by (simp add: fun_upd_idem_iff)
    then have "self\<lparr>cache := (cache self)(n := None)\<rparr> = self" by simp
    then have "(readers s)(r \<mapsto> self\<lparr>cache := (cache self)(n := None)\<rparr>) = readers s"
      using assms by (simp add: fun_upd_idem_iff)
    then show ?thesis using that None assms by (simp add: reload_def)
  next
    case (Some c)
    then show ?thesis using that assms by (simp add: reload_def)
  qed
  have frame: "r' \<noteq> r \<longrightarrow> readers (snd (reload r cfg s)) r' = readers s r'"
    using assms by (auto simp: reload_def split: option.splits)
  have rest: "dir_cache (snd (reload r cfg s)) = dir_cache s"
    "configs (snd (reload r cfg s)) = configs s"
    using assms by (auto simp: reload_def split: option.splits)
  show ?thesis
    using assms upd frame rest by (simp add: reload_def read_config_def)
qed

theorem reload_evicts_witness:
  "readers sample_world_pair 0 = Some (sample_reader\<lparr>cache := [''settings.yaml'' \<mapsto> 1]\<rparr>) \<and>
   ''settings.yaml'' \<noteq> [] \<and>
   reload 0 (Some ''settings.yaml'') sample_world_pair =
     (Inr (), sample_world_pair\<lparr>readers := (readers sample_world_pair)(0 \<mapsto> sample_reader)\<rparr>) \<and>
   read_config sample_lib [''/etc/app/settings.yaml'' \<mapsto> ''port: 9090''] 0 ''settings.yaml'' PNone VNone
       (snd (reload 0 (Some ''settings.yaml'') sample_world_pair)) =
     (Inr 4,
      sample_world_pair\<lparr>readers := (readers sample_world_pair)
                          (0 \<mapsto> sample_reader\<lparr>cache := [''settings.yaml'' \<mapsto> 4]\<rparr>),
        configs := (configs sample_world_pair)(4 \<mapsto> [''port'' \<mapsto> VInt 9090]),
        next_ref := 5\<rparr>) \<and>
   reload 0 None sample_world_pair =
     (Inr (), sample_world_pair\<lparr>readers := (readers sample_world_pair)(0 \<mapsto> sample_reader)\<rparr>) \<and>
   (2::nat) \<noteq> 0 \<and>
   readers (snd (reload 0 None sample_world_pair)) 2 = readers sample_world_pair 2"
proof -
  have a: "readers sample_world_pair 0 = Some (sample_reader\<lparr>cache := [''settings.yaml'' \<mapsto> 1]\<rparr>)"
    by (simp add: sample_defs)
  have b: "reload 0 (Some ''settings.yaml'') sample_world_pair =
     (Inr (), sample_world_pair\<lparr>readers := (readers sample_world_pair)(0 \<mapsto> sample_reader)\<rparr>)"
    by (simp add: sample_defs reload_def)
  have c: "read_config sample_lib [''/etc/app/settings.yaml'' \<mapsto> ''port: 9090''] 0 ''settings.yaml''
       PNone VNone (sample_world_pair\<lparr>readers := (readers sample_world_pair)(0 \<mapsto> sample_reader)\<rparr>) =
     (Inr 4,
      sample_world_pair\<lparr>readers := (readers sample_world_pair)
                          (0 \<mapsto> sample_reader\<lparr>cache := [''settings.yaml'' \<mapsto> 4]\<rparr>),
        configs := (configs sample_world_pair)(4 \<mapsto> [''port'' \<mapsto> VInt 9090]),
        next_ref := 5\<rparr>)"
    by (simp add: sample_defs reader_defs)
  have d: "reload 0 None sample_world_pair =
     (Inr (), sample_world_pair\<lparr>readers := (readers sample_world_pair)(0 \<mapsto> sample_reader)\<rparr>)"
    by (simp add: sample_defs reload_def)
  show ?thesis
    using reload_evicts[where s = sample_world_pair and r = 0
        and self = "sample_reader\<lparr>cache := [''settings.yaml'' \<mapsto> 1]\<rparr>"
        and n = "''settings.yaml''" and lib = sample_lib
        and fs = "[''/etc/app/settings.yaml'' \<mapsto> ''port: 9090'']" and p = PNone and d = VNone
        and r' = 2 and cfg = None] a b c d
    by simp
qed

text \<open>
  The claim as first stated fails on the empty name: a reader may hold an entry under
  \<^verbatim>\<open>''\<close> (a read of the empty name with a default), and \<^verbatim>\<open>reload('')\<close> takes the
  branch of no argument: the entry of \<^verbatim>\<open>settings.yaml\<close> is evicted too.
\<close>

theorem reload_evicts_counterexample:
  "map_option (\<lambda>rd. cache rd ''settings.yaml'') (readers sample_world_two 0) = Some (Some 2) \<and>
   map_option (\<lambda>rd. cache rd ''settings.yaml'')
     (readers (snd (reload 0 (Some []) sample_world_two)) 0) = Some None"
  by (simp add: sample_defs reload_def)

text \<open>
  C10. \<^verbatim>\<open>R.reload(N)\<close> for a non-empty name \<open>N\<close> that has no entry in the cache of \<open>R\<close>
  raises \<^verbatim>\<open>KeyError\<close> (from \<^verbatim>\<open>del self.cache[config]\<close>) and changes nothing.
\<close>

theorem reload_uncached_raises:
  assumes "readers s r = Some self" and "n \<noteq> []" and "cache self n = None"
  shows "reload r (Some n) s = (Inl (KeyError n), s)"
  using assms by (simp add: reload_def)

theorem reload_uncached_raises_witness:
  "readers sample_world_read 0 = Some (sample_reader\<lparr>cache := [''settings.yaml'' \<mapsto> 1]\<rparr>) \<and>
   ''other.yaml'' \<noteq> [] \<and>
   cache (sample_reader\<lparr>cache := [''settings.yaml'' \<mapsto> 1]\<rparr>) ''other.yaml'' = None \<and>
   reload 0 (Some ''other.yaml'') sample_world_read = (Inl (KeyError ''other.yaml''), sample_world_read)"
proof -
  have a: "readers sample_world_read 0 = Some (sample_reader\<lparr>cache := [''settings.yaml'' \<mapsto> 1]\<rparr>)"
    by (simp add: sample_defs)
  have b: "''other.yaml'' \<noteq> []" by simp
  have c: "cache (sample_reader\<lparr>cache := [''settings.yaml'' \<mapsto> 1]\<rparr>) ''other.yaml'' = None"
    by simp
  show ?thesis
    using reload_uncached_raises[where s = sample_world_read and r = 0
        and self = "sample_reader\<lparr>cache := [''settings.yaml'' \<mapsto> 1]\<rparr>"
        and n = "''other.yaml''"] a b c by simp
qed

end
